theory Spec2Isabelle
  imports Main
begin

section \<open>Python values and exceptions\<close>

text \<open>
  The request's \<open>claims\<close> attribute is dynamically typed: it holds \<open>None\<close> or a text
  string before validation and whatever \<open>json.loads\<close> returned afterwards. Token
  responses are dictionaries. Both are values of \<open>pyval\<close>. A float is either
  \<open>Finite m e\<close> (the number \<open>m * 2 ^ e\<close>), an infinity or a NaN, all of which
  \<open>json.loads\<close> can produce.
\<close>

datatype pyfloat = Finite int int | PosInf | NegInf | NaN

datatype pyval =
    PNone
  | PBool bool
  | PInt int
  | PFloat pyfloat
  | PStr string
  | PList "pyval list"
  | PDict "(string \<times> pyval) list"

text \<open>Python truth value testing, as used by \<open>if x\<close> and \<open>not x\<close>.\<close>

fun truthy :: "pyval \<Rightarrow> bool" where
  "truthy PNone = False"
| "truthy (PBool b) = b"
| "truthy (PInt n) = (n \<noteq> 0)"
| "truthy (PFloat (Finite m e)) = (m \<noteq> 0)"
| "truthy (PFloat PosInf) = True"
| "truthy (PFloat NegInf) = True"
| "truthy (PFloat NaN) = True"
| "truthy (PStr s) = (s \<noteq> [])"
| "truthy (PList xs) = (xs \<noteq> [])"
| "truthy (PDict kvs) = (kvs \<noteq> [])"

text \<open>An attribute that is \<open>None\<close> or a text string: true when it is a non-empty string.\<close>

fun truthy_str :: "string option \<Rightarrow> bool" where
  "truthy_str None = False"
| "truthy_str (Some s) = (s \<noteq> [])"

fun is_mapping :: "pyval \<Rightarrow> bool" where
  "is_mapping (PDict kvs) = True"
| "is_mapping v = False"

text \<open>
  The exceptions this module raises or lets through. The three OAuth errors are raised
  with \<open>request=request\<close>, the very request object whose final state the model returns
  beside the outcome, and with an optional \<open>description\<close> keyword, which is what the
  constructor carries here. \<open>ValueError\<close> is what \<open>json.loads\<close> raises on a malformed
  document, \<open>TypeError\<close> what it raises on an argument that is not a string, and
  \<open>AttributeError\<close> carries the name whose lookup failed.
\<close>

datatype exn =
    InvalidRequestError "string option"
  | LoginRequired "string option"
  | ConsentRequired "string option"
  | ValueError
  | TypeError
  | AttributeError string

section \<open>Whitespace splitting\<close>

text \<open>
  \<open>str.split()\<close> without arguments on a text string: runs of whitespace separate the
  tokens, and leading and trailing whitespace produce no empty token. Strings are lists
  of code points below 256; the whitespace code points in that range are listed.
\<close>

definition is_space :: "char \<Rightarrow> bool" where
  "is_space c = (c \<in> set [CHR 0x09, CHR 0x0A, CHR 0x0B, CHR 0x0C, CHR 0x0D,
                          CHR 0x1C, CHR 0x1D, CHR 0x1E, CHR 0x1F, CHR 0x20,
                          CHR 0x85, CHR 0xA0])"

text \<open>\<open>split_from cur s\<close> scans \<open>s\<close> with the token read so far in \<open>cur\<close>.\<close>

fun split_from :: "string \<Rightarrow> string \<Rightarrow> string list" where
  "split_from cur [] = (if cur = [] then [] else [cur])"
| "split_from cur (c # cs) =
     (if is_space c
      then (if cur = [] then split_from [] cs else cur # split_from [] cs)
      else split_from (cur @ [c]) cs)"

definition py_split :: "string \<Rightarrow> string list" where
  "py_split s = split_from [] s"

text \<open>The expression \<open>x.split() if x else []\<close>.\<close>

fun split_field :: "string option \<Rightarrow> string list" where
  "split_field None = []"
| "split_field (Some s) = (if s \<noteq> [] then py_split s else [])"

section \<open>Requests, the request validator and the call trace\<close>

record request =
  scopes :: "string list"
  prompt :: "string option"
  display :: "string option"
  max_age :: "int option"
  ui_locales :: "string option"
  id_token_hint :: "string option"
  login_hint :: "string option"
  acr_values :: "string option"
  claims :: pyval
  response_type :: "string option"

text \<open>The dictionary \<open>request_info\<close> that a successful validation returns.\<close>

record request_info =
  info_display :: "string option"
  info_prompt :: "string list"
  info_ui_locales :: "string list"
  info_id_token_hint :: "string option"
  info_login_hint :: "string option"

text \<open>
  The application supplies the request validator; the module only calls these three
  methods of it and tests their results. Each method is taken to answer with a truth
  value and to leave the request as it is.
\<close>

record request_validator =
  validate_silent_login :: "request \<Rightarrow> bool"
  validate_silent_authorization :: "request \<Rightarrow> bool"
  validate_user_match :: "string option \<Rightarrow> string list \<Rightarrow> pyval \<Rightarrow> request \<Rightarrow> bool"

text \<open>Every call made on the request validator is recorded, with its arguments, in order.\<close>

datatype call =
    SilentLogin request
  | SilentAuthorization request
  | UserMatch "string option" "string list" pyval request

fun is_silent_authorization :: "call \<Rightarrow> bool" where
  "is_silent_authorization (SilentAuthorization r) = True"
| "is_silent_authorization c = False"

section \<open>The module's functions\<close>

text \<open>
  \<open>json.loads\<close> belongs to the standard library. Its action on a text string is a
  parameter \<open>loads\<close> of the model, with \<open>None\<close> for a malformed document; on any
  other argument it raises \<open>TypeError\<close>.
\<close>

fun json_loads :: "(string \<Rightarrow> pyval option) \<Rightarrow> pyval \<Rightarrow> exn + pyval" where
  "json_loads loads (PStr s) = (case loads s of None \<Rightarrow> Inl ValueError | Some v \<Rightarrow> Inr v)"
| "json_loads loads v = Inl TypeError"

text \<open>
  \<open>add_id_token\<close>: the token is returned when \<open>openid\<close> is not a scope; otherwise the
  body ends without a \<open>return\<close>, so the result is \<open>None\<close>.
\<close>

definition add_id_token :: "pyval \<Rightarrow> request \<Rightarrow> pyval" where
  "add_id_token token request =
     (if ''openid'' \<notin> set (scopes request) then token else PNone)"

text \<open>
  The block under \<open>if request.prompt == 'none'\<close>: silent login is asked first and
  silent authorization only when login passed. The result is the exception raised, if
  any, and the calls made.
\<close>

definition silent_checks :: "request_validator \<Rightarrow> request \<Rightarrow> exn option \<times> call list" where
  "silent_checks rv request =
    (if prompt request = Some ''none'' then
       (if \<not> validate_silent_login rv request then
          (Some (LoginRequired None), [SilentLogin request])
        else if \<not> validate_silent_authorization rv request then
          (Some (ConsentRequired None), [SilentLogin request, SilentAuthorization request])
        else (None, [SilentLogin request, SilentAuthorization request]))
     else (None, []))"

text \<open>The right-hand side \<open>loads(request.claims) if request.claims else {}\<close>.\<close>

definition parse_claims :: "(string \<Rightarrow> pyval option) \<Rightarrow> pyval \<Rightarrow> exn + pyval" where
  "parse_claims loads v = (if truthy v then json_loads loads v else Inr (PDict []))"

text \<open>
  \<open>openid_authorization_validator\<close> returns its outcome (an exception, \<open>None\<close> or the
  \<open>request_info\<close>), the request as the call leaves it (the \<open>claims\<close> attribute is
  assigned in place) and the calls made on the request validator.
\<close>

definition openid_authorization_validator ::
  "(string \<Rightarrow> pyval option) \<Rightarrow> request_validator \<Rightarrow> request
     \<Rightarrow> (exn + request_info option) \<times> request \<times> call list" where
  "openid_authorization_validator loads rv request =
    (if ''openid'' \<notin> set (scopes request) then (Inr None, request, [])
     else if prompt request = Some ''none'' \<and> \<not> truthy_str (id_token_hint request) then
       (Inl (InvalidRequestError (Some ''Prompt is set to none yet id_token_hint is missing.'')),
        request, [])
     else
       case silent_checks rv request of
         (Some e, tr) \<Rightarrow> (Inl e, request, tr)
       | (None, tr) \<Rightarrow>
          (case parse_claims loads (claims request) of
             Inl e \<Rightarrow> (Inl e, request, tr)
           | Inr c \<Rightarrow>
               let request' = request\<lparr>claims := c\<rparr>;
                   tr' = tr @ [UserMatch (id_token_hint request') (scopes request')
                                         (claims request') request']
               in if \<not> validate_user_match rv (id_token_hint request') (scopes request')
                                             (claims request') request'
                  then (Inl (LoginRequired
                               (Some ''Session user does not match client supplied user.'')),
                        request', tr')
                  else (Inr (Some \<lparr>info_display = display request',
                                    info_prompt = split_field (prompt request'),
                                    info_ui_locales = split_field (ui_locales request'),
                                    info_id_token_hint = id_token_hint request',
                                    info_login_hint = login_hint request'\<rparr>),
                        request', tr')))"

text \<open>\<open>openid_implicit_authorization_validator\<close>: both paths return \<open>None\<close>.\<close>

definition openid_implicit_authorization_validator :: "request \<Rightarrow> request_info option" where
  "openid_implicit_authorization_validator request =
     (if response_type request = Some ''token'' then None else None)"

section \<open>Classes, attribute lookup and the constructors\<close>

text \<open>
  The classes of the module and their base \<open>GrantTypeBase\<close>, which lives in another
  module: the names it supplies (its own and inherited ones) are the parameter
  \<open>base\<close>. \<open>class_body\<close> lists the names each class statement binds.
\<close>

datatype cls =
    GrantTypeBase
  | OpenIDConnectBase
  | OpenIDConnectAuthCode
  | OpenIDConnectImplicit
  | OpenIDConnectHybrid

fun class_body :: "string list \<Rightarrow> cls \<Rightarrow> string list" where
  "class_body base GrantTypeBase = base"
| "class_body base OpenIDConnectBase = [''add_id_token'', ''openid_authorization_validator'']"
| "class_body base OpenIDConnectAuthCode =
     [''__init__'', ''create_authorization_response'', ''create_token_response'',
      ''validate_authorization_request'']"
| "class_body base OpenIDConnectImplicit =
     [''__init__'', ''openid_implicit_authorization_validator'']"
| "class_body base OpenIDConnectHybrid = [''__init__'']"

text \<open>Method resolution order: each class of the module derives from \<open>OpenIDConnectBase\<close>.\<close>

fun mro :: "cls \<Rightarrow> cls list" where
  "mro GrantTypeBase = [GrantTypeBase]"
| "mro OpenIDConnectBase = [OpenIDConnectBase, GrantTypeBase]"
| "mro OpenIDConnectAuthCode = [OpenIDConnectAuthCode, OpenIDConnectBase, GrantTypeBase]"
| "mro OpenIDConnectImplicit = [OpenIDConnectImplicit, OpenIDConnectBase, GrantTypeBase]"
| "mro OpenIDConnectHybrid = [OpenIDConnectHybrid, OpenIDConnectBase, GrantTypeBase]"

text \<open>
  What \<open>self.name\<close> evaluates to: an attribute assigned on the instance, or the method
  bound from the first class of the resolution order that has the name.
\<close>

datatype attr_value = InstanceAttr string | BoundMethod cls string

definition getattr :: "string list \<Rightarrow> cls \<Rightarrow> string list \<Rightarrow> string \<Rightarrow> exn + attr_value" where
  "getattr base c inst name =
     (if name \<in> set inst then Inr (InstanceAttr name)
      else case find (\<lambda>k. name \<in> set (class_body base k)) (mro c) of
             None \<Rightarrow> Inl (AttributeError name)
           | Some k \<Rightarrow> Inr (BoundMethod k name))"

text \<open>Sequencing of statements that may raise.\<close>

fun bind_exn :: "exn + 'a \<Rightarrow> ('a \<Rightarrow> exn + 'b) \<Rightarrow> exn + 'b" where
  "bind_exn (Inl e) f = Inl e"
| "bind_exn (Inr x) f = f x"

text \<open>
  Modelled from the spec: the grant engines \<open>AuthorizationCodeGrant\<close> and
  \<open>ImplicitGrant\<close> and their registration methods are defined in other modules. The
  engine owns a registry of response types, of authorization validators and of token
  modifiers; the registries are append-only and kept in registration order. Only what is
  registered after construction is recorded.
\<close>

record grant_engine =
  engine_validator :: "request_validator option"
  response_types :: "string list"
  authorization_validators :: "attr_value list"
  token_modifiers :: "attr_value list"

text \<open>
  Modelled from the spec: the construction of an engine for a request validator and the
  three registration operations, each appending to its registry.
\<close>

definition new_engine :: "request_validator option \<Rightarrow> grant_engine" where
  "new_engine rv = \<lparr>engine_validator = rv, response_types = [],
                    authorization_validators = [], token_modifiers = []\<rparr>"

definition register_response_type :: "string \<Rightarrow> grant_engine \<Rightarrow> grant_engine" where
  "register_response_type t e = e\<lparr>response_types := response_types e @ [t]\<rparr>"

definition register_authorization_validator :: "attr_value \<Rightarrow> grant_engine \<Rightarrow> grant_engine" where
  "register_authorization_validator v e =
     e\<lparr>authorization_validators := authorization_validators e @ [v]\<rparr>"

definition register_token_modifier :: "attr_value \<Rightarrow> grant_engine \<Rightarrow> grant_engine" where
  "register_token_modifier m e = e\<lparr>token_modifiers := token_modifiers e @ [m]\<rparr>"

text \<open>
  An instance of one of the three flow classes: the attributes \<open>__init__\<close> assigns.
  \<open>request_validator or RequestValidator()\<close> takes the default validator, the
  parameter \<open>dflt\<close>, when the argument is \<open>None\<close>; the engines receive the argument
  as it was passed.
\<close>

record flow =
  self_request_validator :: request_validator
  auth_code :: "grant_engine option"
  implicit :: "grant_engine option"

definition OpenIDConnectAuthCode_init ::
  "string list \<Rightarrow> request_validator \<Rightarrow> request_validator option \<Rightarrow> exn + flow" where
  "OpenIDConnectAuthCode_init base dflt rv =
    (let self_rv = (case rv of Some v \<Rightarrow> v | None \<Rightarrow> dflt);
         inst = [''request_validator'', ''auth_code''];
         a0 = new_engine rv
     in bind_exn (getattr base OpenIDConnectAuthCode inst ''openid_authorization_validator'')
          (\<lambda>v. let a1 = register_authorization_validator v a0
           in bind_exn (getattr base OpenIDConnectAuthCode inst ''add_id_token'')
          (\<lambda>m. Inr \<lparr>self_request_validator = self_rv,
                     auth_code = Some (register_token_modifier m a1),
                     implicit = None\<rparr>)))"

definition OpenIDConnectImplicit_init ::
  "string list \<Rightarrow> request_validator \<Rightarrow> request_validator option \<Rightarrow> exn + flow" where
  "OpenIDConnectImplicit_init base dflt rv =
    (let self_rv = (case rv of Some v \<Rightarrow> v | None \<Rightarrow> dflt);
         inst = [''request_validator'', ''implicit''];
         i0 = new_engine rv;
         i1 = register_response_type ''id_token'' i0;
         i2 = register_response_type ''id_token token'' i1
     in bind_exn (getattr base OpenIDConnectImplicit inst ''openid_authorization_validator'')
          (\<lambda>v. let i3 = register_authorization_validator v i2
           in bind_exn (getattr base OpenIDConnectImplicit inst
                          ''openid_implicit_authorization_validator'')
          (\<lambda>w. let i4 = register_authorization_validator w i3
           in bind_exn (getattr base OpenIDConnectImplicit inst ''create_id_token'')
          (\<lambda>m. Inr \<lparr>self_request_validator = self_rv,
                     auth_code = None,
                     implicit = Some (register_token_modifier m i4)\<rparr>))))"

definition OpenIDConnectHybrid_init ::
  "string list \<Rightarrow> request_validator \<Rightarrow> request_validator option \<Rightarrow> exn + flow" where
  "OpenIDConnectHybrid_init base dflt rv =
    (let self_rv = (case rv of Some v \<Rightarrow> v | None \<Rightarrow> dflt);
         inst = [''request_validator'', ''auth_code''];
         a0 = new_engine rv;
         a1 = register_response_type ''code id_token'' a0;
         a2 = register_response_type ''code token'' a1;
         a3 = register_response_type ''code id_token token'' a2
     in bind_exn (getattr base OpenIDConnectHybrid inst ''openid_authorization_validator'')
          (\<lambda>v. let a4 = register_authorization_validator v a3
           in bind_exn (getattr base OpenIDConnectHybrid inst ''add_id_token'')
          (\<lambda>m. let a5 = register_token_modifier m a4;
                    inst' = inst @ [''implicit''];
                    i0 = new_engine rv;
                    i1 = register_response_type ''id_token'' i0;
                    i2 = register_response_type ''id_token token'' i1
           in bind_exn (getattr base OpenIDConnectHybrid inst' ''openid_authorization_validator'')
          (\<lambda>v'. let i3 = register_authorization_validator v' i2
           in bind_exn (getattr base OpenIDConnectHybrid inst'
                          ''openid_implicit_authorization_validator'')
          (\<lambda>w. let i4 = register_authorization_validator w i3
           in bind_exn (getattr base OpenIDConnectHybrid inst' ''create_id_token'')
          (\<lambda>m'. Inr \<lparr>self_request_validator = self_rv,
                      auth_code = Some a5,
                      implicit = Some (register_token_modifier m' i4)\<rparr>))))))"

section \<open>Sample inputs\<close>

text \<open>A request validator whose three methods give fixed answers.\<close>

definition validator_answers :: "bool \<Rightarrow> bool \<Rightarrow> bool \<Rightarrow> request_validator" where
  "validator_answers l a m =
     \<lparr>validate_silent_login = (\<lambda>r. l),
      validate_silent_authorization = (\<lambda>r. a),
      validate_user_match = (\<lambda>h s c r. m)\<rparr>"

text \<open>A request with the given scopes, prompt, ui_locales, id_token_hint and claims.\<close>

definition sample_request ::
  "string list \<Rightarrow> string option \<Rightarrow> string option \<Rightarrow> string option \<Rightarrow> pyval \<Rightarrow> request" where
  "sample_request sc p u h c =
     \<lparr>scopes = sc, prompt = p, display = Some ''page'', max_age = None, ui_locales = u,
      id_token_hint = h, login_hint = None, acr_values = None, claims = c,
      response_type = Some ''code''\<rparr>"

text \<open>
  \<open>json.loads\<close> on the three documents the samples use: \<open>{}\<close> is the empty object,
  \<open>[]\<close> is the empty array and \<open>{\<close> is malformed. It is applied to no other text.
\<close>

definition sample_loads :: "string \<Rightarrow> pyval option" where
  "sample_loads s =
     (if s = ''{}'' then Some (PDict [])
      else if s = ''[]'' then Some (PList [])
      else None)"

definition sample_token :: pyval where
  "sample_token = PDict [(''access_token'', PStr ''abc''), (''token_type'', PStr ''Bearer'')]"

section \<open>Properties of whitespace splitting\<close>

lemmas validator_defs =
  openid_authorization_validator_def silent_checks_def parse_claims_def Let_def

lemmas sample_defs =
  validator_answers_def sample_request_def sample_loads_def sample_token_def

lemma split_from_tokens:
  "list_all (\<lambda>c. \<not> is_space c) cur \<Longrightarrow>
   list_all (\<lambda>t. t \<noteq> [] \<and> list_all (\<lambda>c. \<not> is_space c) t) (split_from cur s)"
proof (induction s arbitrary: cur)
  case Nil
  then show ?case by simp
next
  case (Cons c cs)
  show ?case
  proof (cases "is_space c")
    case True
    have "list_all (\<lambda>t. t \<noteq> [] \<and> list_all (\<lambda>c. \<not> is_space c) t) (split_from [] cs)"
      by (rule Cons.IH) simp
    with True Cons.prems show ?thesis by simp
  next
    case False
    have "list_all (\<lambda>t. t \<noteq> [] \<and> list_all (\<lambda>c. \<not> is_space c) t)
            (split_from (cur @ [c]) cs)"
      by (rule Cons.IH) (use False Cons.prems in simp)
    with False show ?thesis by simp
  qed
qed

lemma split_from_concat:
  "concat (split_from cur s) = cur @ filter (\<lambda>c. \<not> is_space c) s"
  by (induction s arbitrary: cur) simp_all

lemma split_from_word:
  "list_all (\<lambda>c. \<not> is_space c) w \<Longrightarrow>
   split_from cur w = (if cur @ w = [] then [] else [cur @ w])"
  by (induction w arbitrary: cur) simp_all

lemma split_from_space:
  "is_space c \<Longrightarrow> split_from cur (a @ c # b) = split_from cur a @ split_from [] b"
  by (induction a arbitrary: cur) simp_all

text \<open>
  The tokens are non-empty and free of whitespace, and together they are the
  non-whitespace characters of the string in their order.
\<close>

lemma py_split_tokens:
  "list_all (\<lambda>t. t \<noteq> [] \<and> list_all (\<lambda>c. \<not> is_space c) t) (py_split s)"
  unfolding py_split_def by (rule split_from_tokens) simp

lemma py_split_concat: "concat (py_split s) = filter (\<lambda>c. \<not> is_space c) s"
  unfolding py_split_def by (simp add: split_from_concat)

text \<open>A whitespace character ends a token, and a word without whitespace is one token.\<close>

lemma py_split_at_space:
  "is_space c \<Longrightarrow> py_split (a @ c # b) = py_split a @ py_split b"
  unfolding py_split_def by (rule split_from_space)

lemma py_split_word:
  "w \<noteq> [] \<Longrightarrow> list_all (\<lambda>c. \<not> is_space c) w \<Longrightarrow> py_split w = [w]"
  unfolding py_split_def by (simp add: split_from_word)

lemma split_field_eq:
  "split_field x = (case x of None \<Rightarrow> [] | Some s \<Rightarrow> py_split s)"
  by (cases x) (simp_all add: py_split_def)

lemma split_field_tokens:
  "list_all (\<lambda>t. t \<noteq> [] \<and> list_all (\<lambda>c. \<not> is_space c) t) (split_field x)"
  by (cases x) (simp_all add: py_split_tokens)

section \<open>The authorization request validator\<close>

text \<open>
  A request that passes the two \<open>prompt == 'none'\<close> blocks, whose claims parse to
  \<open>c\<close>, reaches the user match call with the claims attribute assigned.
\<close>

lemma validator_after_parse:
  assumes "''openid'' \<in> set (scopes request)"
    and "prompt request = Some ''none'' \<longrightarrow>
           truthy_str (id_token_hint request) \<and> validate_silent_login rv request
           \<and> validate_silent_authorization rv request"
    and "parse_claims loads (claims request) = Inr c"
  shows "openid_authorization_validator loads rv request =
    (if \<not> validate_user_match rv (id_token_hint request) (scopes request) c
            (request\<lparr>claims := c\<rparr>)
     then (Inl (LoginRequired (Some ''Session user does not match client supplied user.'')),
           request\<lparr>claims := c\<rparr>,
           snd (silent_checks rv request) @
             [UserMatch (id_token_hint request) (scopes request) c (request\<lparr>claims := c\<rparr>)])
     else (Inr (Some \<lparr>info_display = display request,
                       info_prompt = split_field (prompt request),
                       info_ui_locales = split_field (ui_locales request),
                       info_id_token_hint = id_token_hint request,
                       info_login_hint = login_hint request\<rparr>),
           request\<lparr>claims := c\<rparr>,
           snd (silent_checks rv request) @
             [UserMatch (id_token_hint request) (scopes request) c (request\<lparr>claims := c\<rparr>)]))"
proof (cases "prompt request = Some ''none''")
  case True
  with assms show ?thesis
    by (simp add: openid_authorization_validator_def silent_checks_def Let_def)
next
  case False
  with assms show ?thesis
    by (simp add: openid_authorization_validator_def silent_checks_def Let_def)
qed

lemma validator_parse_failure:
  assumes "''openid'' \<in> set (scopes request)"
    and "prompt request = Some ''none'' \<longrightarrow>
           truthy_str (id_token_hint request) \<and> validate_silent_login rv request
           \<and> validate_silent_authorization rv request"
    and "parse_claims loads (claims request) = Inl e"
  shows "openid_authorization_validator loads rv request =
           (Inl e, request, snd (silent_checks rv request))"
proof (cases "prompt request = Some ''none''")
  case True
  with assms show ?thesis
    by (simp add: openid_authorization_validator_def silent_checks_def)
next
  case False
  with assms show ?thesis
    by (simp add: openid_authorization_validator_def silent_checks_def)
qed

lemma add_id_token_with_openid:
  "''openid'' \<in> set (scopes request) \<Longrightarrow> add_id_token token request = PNone"
  by (simp add: add_id_token_def)

section \<open>Claims about the validation order\<close>

text \<open>
  C1. For a request with \<open>openid\<close> among its scopes, prompt equal to \<open>none\<close> and a
  non-empty id_token_hint, a false answer of \<open>validate_silent_login\<close> makes the
  validator raise \<open>LoginRequired\<close>; the only call made on the request validator is that
  one, so \<open>validate_silent_authorization\<close> is not invoked.
\<close>

theorem silent_login_failure_short_circuits:
  assumes "''openid'' \<in> set (scopes request)"
    and "prompt request = Some ''none''"
    and "truthy_str (id_token_hint request)"
    and "\<not> validate_silent_login rv request"
  shows "openid_authorization_validator loads rv request =
           (Inl (LoginRequired None), request, [SilentLogin request])
         \<and> \<not> list_ex is_silent_authorization
               (snd (snd (openid_authorization_validator loads rv request)))"
  using assms by (simp add: validator_defs)

theorem silent_login_failure_short_circuits_witness:
  "''openid'' \<in> set (scopes (sample_request [''openid''] (Some ''none'') None (Some ''hint'') PNone))
   \<and> prompt (sample_request [''openid''] (Some ''none'') None (Some ''hint'') PNone)
       = Some ''none''
   \<and> truthy_str (id_token_hint
        (sample_request [''openid''] (Some ''none'') None (Some ''hint'') PNone))
   \<and> \<not> validate_silent_login (validator_answers False False True)
          (sample_request [''openid''] (Some ''none'') None (Some ''hint'') PNone)
   \<and> openid_authorization_validator sample_loads (validator_answers False False True)
        (sample_request [''openid''] (Some ''none'') None (Some ''hint'') PNone) =
      (Inl (LoginRequired None),
       sample_request [''openid''] (Some ''none'') None (Some ''hint'') PNone,
       [SilentLogin (sample_request [''openid''] (Some ''none'') None (Some ''hint'') PNone)])"
  using silent_login_failure_short_circuits
    [of "sample_request [''openid''] (Some ''none'') None (Some ''hint'') PNone"
        "validator_answers False False True" sample_loads]
  by (simp add: sample_defs)

text \<open>
  C2. For a request with \<open>openid\<close> among its scopes and prompt equal to \<open>none\<close>, an
  id_token_hint that is absent or empty makes the validator raise
  \<open>InvalidRequestError\<close>, whatever the other attributes and the request validator are;
  no call is made on the request validator.
\<close>

theorem prompt_none_without_hint_invalid:
  assumes "''openid'' \<in> set (scopes request)"
    and "prompt request = Some ''none''"
    and "id_token_hint request = None \<or> id_token_hint request = Some []"
  shows "openid_authorization_validator loads rv request =
           (Inl (InvalidRequestError
                   (Some ''Prompt is set to none yet id_token_hint is missing.'')),
            request, [])"
  using assms by (auto simp add: validator_defs)

text \<open>The scenario of the specification: scopes openid and profile, an empty hint.\<close>

theorem prompt_none_without_hint_invalid_witness:
  "''openid'' \<in> set (scopes
      (sample_request [''openid'', ''profile''] (Some ''none'') None (Some []) PNone))
   \<and> prompt (sample_request [''openid'', ''profile''] (Some ''none'') None (Some []) PNone)
       = Some ''none''
   \<and> id_token_hint
        (sample_request [''openid'', ''profile''] (Some ''none'') None (Some []) PNone)
       = Some []
   \<and> openid_authorization_validator sample_loads (validator_answers True True True)
        (sample_request [''openid'', ''profile''] (Some ''none'') None (Some []) PNone) =
      (Inl (InvalidRequestError
              (Some ''Prompt is set to none yet id_token_hint is missing.'')),
       sample_request [''openid'', ''profile''] (Some ''none'') None (Some []) PNone, [])"
  using prompt_none_without_hint_invalid
    [of "sample_request [''openid'', ''profile''] (Some ''none'') None (Some []) PNone"
        sample_loads "validator_answers True True True"]
  by (simp add: sample_defs)

text \<open>
  C3. For a request with \<open>openid\<close> among its scopes, prompt equal to \<open>none\<close> and a
  non-empty id_token_hint, a true answer of \<open>validate_silent_login\<close> followed by a
  false answer of \<open>validate_silent_authorization\<close> makes the validator raise
  \<open>ConsentRequired\<close>.
\<close>

theorem silent_authorization_failure_consent:
  assumes "''openid'' \<in> set (scopes request)"
    and "prompt request = Some ''none''"
    and "truthy_str (id_token_hint request)"
    and "validate_silent_login rv request"
    and "\<not> validate_silent_authorization rv request"
  shows "openid_authorization_validator loads rv request =
           (Inl (ConsentRequired None), request,
            [SilentLogin request, SilentAuthorization request])"
  using assms by (simp add: validator_defs)

theorem silent_authorization_failure_consent_witness:
  "''openid'' \<in> set (scopes (sample_request [''openid''] (Some ''none'') None (Some ''hint'') PNone))
   \<and> prompt (sample_request [''openid''] (Some ''none'') None (Some ''hint'') PNone)
       = Some ''none''
   \<and> truthy_str (id_token_hint
        (sample_request [''openid''] (Some ''none'') None (Some ''hint'') PNone))
   \<and> validate_silent_login (validator_answers True False True)
        (sample_request [''openid''] (Some ''none'') None (Some ''hint'') PNone)
   \<and> \<not> validate_silent_authorization (validator_answers True False True)
          (sample_request [''openid''] (Some ''none'') None (Some ''hint'') PNone)
   \<and> fst (openid_authorization_validator sample_loads (validator_answers True False True)
        (sample_request [''openid''] (Some ''none'') None (Some ''hint'') PNone)) =
      Inl (ConsentRequired None)"
  using silent_authorization_failure_consent
    [of "sample_request [''openid''] (Some ''none'') None (Some ''hint'') PNone"
        "validator_answers True False True" sample_loads]
  by (simp add: sample_defs)

section \<open>Claims about requests without the openid scope\<close>

text \<open>
  C4. When \<open>openid\<close> is not among the scopes, the validator returns \<open>None\<close> without
  raising, leaves the request as it was and makes no call on the request validator, and
  \<open>add_id_token\<close> returns the token it was given.
\<close>

theorem no_openid_scope_noop:
  assumes "''openid'' \<notin> set (scopes request)"
  shows "openid_authorization_validator loads rv request = (Inr None, request, [])
         \<and> add_id_token token request = token"
  using assms by (simp add: validator_defs add_id_token_def)

text \<open>The scenario of the specification: the only scope is profile.\<close>

theorem no_openid_scope_noop_witness:
  "''openid'' \<notin> set (scopes (sample_request [''profile''] (Some ''none'') None None PNone))
   \<and> openid_authorization_validator sample_loads (validator_answers False False False)
        (sample_request [''profile''] (Some ''none'') None None PNone) =
      (Inr None, sample_request [''profile''] (Some ''none'') None None PNone, [])
   \<and> add_id_token sample_token (sample_request [''profile''] (Some ''none'') None None PNone)
       = sample_token"
  using no_openid_scope_noop
    [of "sample_request [''profile''] (Some ''none'') None None PNone"
        sample_loads "validator_answers False False False" sample_token]
  by (simp add: sample_defs)

text \<open>
  C5. The claim is that \<open>add_id_token\<close> returns a token response with an identity token
  attached when \<open>openid\<close> is among the scopes. The function returns \<open>None\<close> there: on
  the sample token and a request whose only scope is \<open>openid\<close> the result is \<open>PNone\<close>.
\<close>

theorem add_id_token_openid_returns_none:
  "add_id_token sample_token (sample_request [''openid''] None None None PNone) = PNone"
  by (simp add: add_id_token_def sample_defs)

section \<open>Claims about the claims attribute and the user match\<close>

lemma parse_claims_result:
  assumes "parse_claims loads v = Inr c"
  shows "(\<not> truthy v \<and> c = PDict [])
         \<or> (\<exists>s. v = PStr s \<and> s \<noteq> [] \<and> loads s = Some c)"
proof (cases "truthy v")
  case False
  with assms show ?thesis by (simp add: parse_claims_def)
next
  case True
  with assms have j: "json_loads loads v = Inr c" by (simp add: parse_claims_def)
  then obtain s where s: "v = PStr s" by (cases v) simp_all
  with j have "loads s = Some c" by (simp split: option.splits)
  with s True show ?thesis by simp
qed

lemma parse_claims_absent:
  "v = PNone \<or> v = PStr [] \<Longrightarrow> parse_claims loads v = Inr (PDict [])"
  by (auto simp add: parse_claims_def)

lemma parse_claims_malformed:
  "s \<noteq> [] \<Longrightarrow> loads s = None \<Longrightarrow> parse_claims loads (PStr s) = Inl ValueError"
  by (simp add: parse_claims_def)

lemma validator_success_request:
  assumes "''openid'' \<in> set (scopes request)"
    and "openid_authorization_validator loads rv request = (Inr r, request', tr)"
  shows "\<exists>c. parse_claims loads (claims request) = Inr c \<and> request' = request\<lparr>claims := c\<rparr>"
  using assms
  by (simp add: openid_authorization_validator_def Let_def
           split: if_splits prod.splits option.splits sum.splits)

text \<open>
  C6, as amended. When the validator returns without raising: if \<open>openid\<close> is not a
  scope, the result is \<open>None\<close> and the claims attribute is what it was, so a raw string
  stays a raw string; if \<open>openid\<close> is a scope, the claims attribute is the empty mapping
  when it was absent or empty, it is the mapping \<open>json.loads\<close> returned when the string
  is the document of a JSON object, and so it is a mapping whenever the string is not a
  JSON document of another kind. Nothing is said about documents of another kind.
\<close>

theorem claims_after_successful_validation:
  assumes "fst (openid_authorization_validator loads rv request) = Inr r"
  shows "(''openid'' \<notin> set (scopes request) \<longrightarrow>
            r = None
            \<and> claims (fst (snd (openid_authorization_validator loads rv request)))
                = claims request)
       \<and> (''openid'' \<in> set (scopes request) \<and> \<not> truthy (claims request) \<longrightarrow>
            claims (fst (snd (openid_authorization_validator loads rv request))) = PDict [])
       \<and> (\<forall>s v. ''openid'' \<in> set (scopes request) \<and> claims request = PStr s \<and> s \<noteq> []
                 \<and> loads s = Some v \<and> is_mapping v \<longrightarrow>
            claims (fst (snd (openid_authorization_validator loads rv request))) = v)
       \<and> (''openid'' \<in> set (scopes request)
            \<and> (\<forall>s v. claims request = PStr s \<and> s \<noteq> [] \<and> loads s = Some v
                       \<longrightarrow> is_mapping v) \<longrightarrow>
            is_mapping (claims (fst (snd (openid_authorization_validator loads rv request)))))"
proof (cases "''openid'' \<in> set (scopes request)")
  case False
  with assms show ?thesis by (auto simp add: openid_authorization_validator_def)
next
  case True
  obtain request' tr
    where v: "openid_authorization_validator loads rv request = (Inr r, request', tr)"
    using assms by (cases "openid_authorization_validator loads rv request") auto
  from validator_success_request [OF True v]
  obtain c where c: "parse_claims loads (claims request) = Inr c"
    and r: "request' = request\<lparr>claims := c\<rparr>" by blast
  have after: "claims (fst (snd (openid_authorization_validator loads rv request))) = c"
    by (simp add: v r)
  from parse_claims_result [OF c]
  have "(\<not> truthy (claims request) \<and> c = PDict [])
        \<or> (\<exists>s. claims request = PStr s \<and> s \<noteq> [] \<and> loads s = Some c)" .
  then show ?thesis
  proof
    assume "\<not> truthy (claims request) \<and> c = PDict []"
    with True after show ?thesis by auto
  next
    assume "\<exists>s. claims request = PStr s \<and> s \<noteq> [] \<and> loads s = Some c"
    then obtain s where "claims request = PStr s" "s \<noteq> []" "loads s = Some c" by blast
    with True after show ?thesis by auto
  qed
qed

text \<open>
  A request without \<open>openid\<close>, one with empty claims and one whose claims are the
  document \<open>{}\<close>.
\<close>

theorem claims_after_successful_validation_witness:
  "claims (fst (snd (openid_authorization_validator sample_loads
                       (validator_answers True True True)
                       (sample_request [''email''] None None None (PStr ''[]'')))))
     = PStr ''[]''
   \<and> claims (fst (snd (openid_authorization_validator sample_loads
                       (validator_answers True True True)
                       (sample_request [''openid''] (Some ''login'') None None (PStr [])))))
     = PDict []
   \<and> claims (fst (snd (openid_authorization_validator sample_loads
                       (validator_answers True True True)
                       (sample_request [''openid''] (Some ''login'') None None
                          (PStr ''{}'')))))
     = PDict []
   \<and> is_mapping
       (claims (fst (snd (openid_authorization_validator sample_loads
                       (validator_answers True True True)
                       (sample_request [''openid''] (Some ''login'') None None
                          (PStr ''{}''))))))"
  using claims_after_successful_validation
    [of sample_loads "validator_answers True True True"
        "sample_request [''email''] None None None (PStr ''[]'')" None]
    claims_after_successful_validation
    [of sample_loads "validator_answers True True True"
        "sample_request [''openid''] (Some ''login'') None None (PStr [])"
        "Some \<lparr>info_display = Some ''page'', info_prompt = [''login''],
                info_ui_locales = [], info_id_token_hint = None, info_login_hint = None\<rparr>"]
    claims_after_successful_validation
    [of sample_loads "validator_answers True True True"
        "sample_request [''openid''] (Some ''login'') None None (PStr ''{}'')"
        "Some \<lparr>info_display = Some ''page'', info_prompt = [''login''],
                info_ui_locales = [], info_id_token_hint = None, info_login_hint = None\<rparr>"]
  by (simp add: validator_defs sample_defs py_split_def is_space_def)

text \<open>
  C6 as stated fails at two inputs. On the branch taken when \<open>openid\<close> is not a scope the
  validator returns \<open>None\<close> without raising and the claims attribute still holds the raw
  string. With \<open>openid\<close> as a scope and the claims string \<open>[]\<close>, the document of an
  empty JSON array, the validator returns a \<open>request_info\<close> and the claims attribute
  holds a list: the result of \<open>json.loads\<close> is assigned without a test of its kind,
  although the other arm of the same expression supplies a mapping.
\<close>

theorem claims_raw_after_noop_counterexample:
  "fst (openid_authorization_validator sample_loads (validator_answers True True True)
          (sample_request [''profile''] None None None (PStr ''{}''))) = Inr None
   \<and> claims (fst (snd (openid_authorization_validator sample_loads
                          (validator_answers True True True)
                          (sample_request [''profile''] None None None (PStr ''{}''))))) = PStr ''{}''
   \<and> \<not> is_mapping (claims (fst (snd (openid_authorization_validator sample_loads
                          (validator_answers True True True)
                          (sample_request [''profile''] None None None (PStr ''{}''))))))
   \<and> fst (openid_authorization_validator sample_loads (validator_answers True True True)
          (sample_request [''openid''] None None None (PStr ''[]''))) =
       Inr (Some \<lparr>info_display = Some ''page'', info_prompt = [], info_ui_locales = [],
                   info_id_token_hint = None, info_login_hint = None\<rparr>)
   \<and> claims (fst (snd (openid_authorization_validator sample_loads
                          (validator_answers True True True)
                          (sample_request [''openid''] None None None (PStr ''[]''))))) = PList []
   \<and> \<not> is_mapping (claims (fst (snd (openid_authorization_validator sample_loads
                          (validator_answers True True True)
                          (sample_request [''openid''] None None None (PStr ''[]''))))))"
  by (simp add: validator_defs sample_defs)

text \<open>
  C7. For a request with \<open>openid\<close> among its scopes that passes the
  \<open>prompt == 'none'\<close> checks: claims that are absent or the empty string are replaced by
  the empty mapping; claims that are a non-empty string which \<open>json.loads\<close> rejects make
  the validator raise that \<open>ValueError\<close> itself, with the request unchanged and without
  calling \<open>validate_user_match\<close>.
\<close>

theorem claims_parse_outcomes:
  assumes "''openid'' \<in> set (scopes request)"
    and "prompt request = Some ''none'' \<longrightarrow>
           truthy_str (id_token_hint request) \<and> validate_silent_login rv request
           \<and> validate_silent_authorization rv request"
  shows "(claims request = PNone \<or> claims request = PStr [] \<longrightarrow>
            claims (fst (snd (openid_authorization_validator loads rv request))) = PDict []
            \<and> fst (openid_authorization_validator loads rv request) \<noteq> Inl ValueError)
       \<and> (\<forall>s. claims request = PStr s \<and> s \<noteq> [] \<and> loads s = None \<longrightarrow>
            openid_authorization_validator loads rv request =
              (Inl ValueError, request, snd (silent_checks rv request)))"
proof (intro conjI impI allI)
  assume "claims request = PNone \<or> claims request = PStr []"
  then have p: "parse_claims loads (claims request) = Inr (PDict [])"
    by (rule parse_claims_absent)
  show "claims (fst (snd (openid_authorization_validator loads rv request))) = PDict []"
    by (simp add: validator_after_parse [OF assms p])
  show "fst (openid_authorization_validator loads rv request) \<noteq> Inl ValueError"
    by (simp add: validator_after_parse [OF assms p])
next
  fix s
  assume "claims request = PStr s \<and> s \<noteq> [] \<and> loads s = None"
  then have "parse_claims loads (claims request) = Inl ValueError"
    by (simp add: parse_claims_malformed)
  then show "openid_authorization_validator loads rv request =
               (Inl ValueError, request, snd (silent_checks rv request))"
    by (rule validator_parse_failure [OF assms])
qed

text \<open>Empty claims on one request, the malformed document \<open>{\<close> on another.\<close>

theorem claims_parse_outcomes_witness:
  "claims (fst (snd (openid_authorization_validator sample_loads
                       (validator_answers True True False)
                       (sample_request [''openid''] (Some ''none'') None (Some ''hint'')
                          (PStr []))))) = PDict []
   \<and> openid_authorization_validator sample_loads (validator_answers True True True)
        (sample_request [''openid''] (Some ''none'') None (Some ''hint'') (PStr ''{'')) =
      (Inl ValueError,
       sample_request [''openid''] (Some ''none'') None (Some ''hint'') (PStr ''{''),
       [SilentLogin
          (sample_request [''openid''] (Some ''none'') None (Some ''hint'') (PStr ''{'')),
        SilentAuthorization
          (sample_request [''openid''] (Some ''none'') None (Some ''hint'') (PStr ''{''))])"
  using claims_parse_outcomes
    [of "sample_request [''openid''] (Some ''none'') None (Some ''hint'') (PStr [])"
        "validator_answers True True False" sample_loads]
    claims_parse_outcomes
    [of "sample_request [''openid''] (Some ''none'') None (Some ''hint'') (PStr ''{'')"
        "validator_answers True True True" sample_loads]
  by (simp add: sample_defs silent_checks_def)

text \<open>
  C8. For a request with \<open>openid\<close> among its scopes that passes the
  \<open>prompt == 'none'\<close> checks and whose claims parse to \<open>c\<close>, whatever its prompt is,
  \<open>validate_user_match\<close> is called with the id_token_hint, the scopes, \<open>c\<close> and the
  request; a false answer makes the validator raise \<open>LoginRequired\<close> with the
  description that the session user does not match the client supplied user, spelled
  \<open>Session user does not match client supplied user.\<close> The description is distinct:
  the \<open>LoginRequired\<close> of the silent login check never carries it.
\<close>

theorem user_mismatch_login_required:
  assumes "''openid'' \<in> set (scopes request)"
    and "prompt request = Some ''none'' \<longrightarrow>
           truthy_str (id_token_hint request) \<and> validate_silent_login rv request
           \<and> validate_silent_authorization rv request"
    and "parse_claims loads (claims request) = Inr c"
    and "\<not> validate_user_match rv (id_token_hint request) (scopes request) c
             (request\<lparr>claims := c\<rparr>)"
  shows "openid_authorization_validator loads rv request =
    (Inl (LoginRequired (Some ''Session user does not match client supplied user.'')),
     request\<lparr>claims := c\<rparr>,
     snd (silent_checks rv request) @
       [UserMatch (id_token_hint request) (scopes request) c (request\<lparr>claims := c\<rparr>)])
    \<and> (\<forall>rv' request'. fst (silent_checks rv' request') \<noteq>
          Some (LoginRequired (Some ''Session user does not match client supplied user.'')))"
proof
  show "openid_authorization_validator loads rv request =
    (Inl (LoginRequired (Some ''Session user does not match client supplied user.'')),
     request\<lparr>claims := c\<rparr>,
     snd (silent_checks rv request) @
       [UserMatch (id_token_hint request) (scopes request) c (request\<lparr>claims := c\<rparr>)])"
    using validator_after_parse [OF assms(1-3)] assms(4) by simp
  show "\<forall>rv' request'. fst (silent_checks rv' request') \<noteq>
          Some (LoginRequired (Some ''Session user does not match client supplied user.''))"
    by (simp add: silent_checks_def)
qed

text \<open>One request with prompt \<open>none\<close>, one with prompt \<open>login\<close>.\<close>

theorem user_mismatch_login_required_witness:
  "openid_authorization_validator sample_loads (validator_answers True True False)
     (sample_request [''openid''] (Some ''none'') None (Some ''hint'') (PStr ''{}'')) =
   (Inl (LoginRequired (Some ''Session user does not match client supplied user.'')),
    sample_request [''openid''] (Some ''none'') None (Some ''hint'') (PDict []),
    [SilentLogin
       (sample_request [''openid''] (Some ''none'') None (Some ''hint'') (PStr ''{}'')),
     SilentAuthorization
       (sample_request [''openid''] (Some ''none'') None (Some ''hint'') (PStr ''{}'')),
     UserMatch (Some ''hint'') [''openid''] (PDict [])
       (sample_request [''openid''] (Some ''none'') None (Some ''hint'') (PDict []))])
   \<and> fst (openid_authorization_validator sample_loads (validator_answers False False False)
            (sample_request [''openid''] (Some ''login'') None None PNone)) =
      Inl (LoginRequired (Some ''Session user does not match client supplied user.''))"
  using user_mismatch_login_required
    [of "sample_request [''openid''] (Some ''none'') None (Some ''hint'') (PStr ''{}'')"
        "validator_answers True True False" sample_loads "PDict []"]
    user_mismatch_login_required
    [of "sample_request [''openid''] (Some ''login'') None None PNone"
        "validator_answers False False False" sample_loads "PDict []"]
  by (simp add: sample_defs silent_checks_def parse_claims_def)

section \<open>Claims about the returned request info\<close>

text \<open>
  C9, as amended. For a request with \<open>openid\<close> among its scopes that does not combine
  prompt \<open>none\<close> with a missing id_token_hint, whose claims are absent, empty or parse
  to \<open>c\<close>, and for which every call on the request validator answers true, the
  validator returns a \<open>request_info\<close> and leaves the parsed claims on the request. The
  prompt and ui_locales of the \<open>request_info\<close> are the empty list when the attribute is
  absent and otherwise the whitespace-separated tokens of the string, in order: every
  token is non-empty and free of whitespace, and the tokens concatenated are the
  non-whitespace characters of the string. For prompt \<open>login consent\<close>, ui_locales
  \<open>fr-CA fr en\<close> and empty claims the lists are \<open>login, consent\<close> and
  \<open>fr-CA, fr, en\<close>, and the claims become the empty mapping.
\<close>

theorem request_info_on_success:
  assumes "''openid'' \<in> set (scopes request)"
    and "prompt request = Some ''none'' \<longrightarrow>
           truthy_str (id_token_hint request) \<and> validate_silent_login rv request
           \<and> validate_silent_authorization rv request"
    and "parse_claims loads (claims request) = Inr c"
    and "validate_user_match rv (id_token_hint request) (scopes request) c
           (request\<lparr>claims := c\<rparr>)"
  shows "fst (openid_authorization_validator loads rv request) =
           Inr (Some \<lparr>info_display = display request,
                       info_prompt = (case prompt request of None \<Rightarrow> []
                                      | Some s \<Rightarrow> py_split s),
                       info_ui_locales = (case ui_locales request of None \<Rightarrow> []
                                          | Some s \<Rightarrow> py_split s),
                       info_id_token_hint = id_token_hint request,
                       info_login_hint = login_hint request\<rparr>)
       \<and> fst (snd (openid_authorization_validator loads rv request)) = request\<lparr>claims := c\<rparr>
       \<and> (\<forall>s. prompt request = Some s \<longrightarrow>
             list_all (\<lambda>t. t \<noteq> [] \<and> list_all (\<lambda>c. \<not> is_space c) t) (py_split s)
             \<and> concat (py_split s) = filter (\<lambda>c. \<not> is_space c) s)
       \<and> (\<forall>s. ui_locales request = Some s \<longrightarrow>
             list_all (\<lambda>t. t \<noteq> [] \<and> list_all (\<lambda>c. \<not> is_space c) t) (py_split s)
             \<and> concat (py_split s) = filter (\<lambda>c. \<not> is_space c) s)
       \<and> (prompt request = Some ''login consent''
            \<and> ui_locales request = Some ''fr-CA fr en'' \<and> claims request = PStr [] \<longrightarrow>
            fst (openid_authorization_validator loads rv request) =
              Inr (Some \<lparr>info_display = display request,
                          info_prompt = [''login'', ''consent''],
                          info_ui_locales = [''fr-CA'', ''fr'', ''en''],
                          info_id_token_hint = id_token_hint request,
                          info_login_hint = login_hint request\<rparr>)
            \<and> claims (fst (snd (openid_authorization_validator loads rv request))) = PDict [])"
proof -
  note v = validator_after_parse [OF assms(1-3)]
  have info: "fst (openid_authorization_validator loads rv request) =
           Inr (Some \<lparr>info_display = display request,
                       info_prompt = (case prompt request of None \<Rightarrow> []
                                      | Some s \<Rightarrow> py_split s),
                       info_ui_locales = (case ui_locales request of None \<Rightarrow> []
                                          | Some s \<Rightarrow> py_split s),
                       info_id_token_hint = id_token_hint request,
                       info_login_hint = login_hint request\<rparr>)"
    using assms(4) by (simp add: v split_field_eq)
  have req: "fst (snd (openid_authorization_validator loads rv request)) = request\<lparr>claims := c\<rparr>"
    using assms(4) by (simp add: v)
  have login: "py_split ''login consent'' = [''login'', ''consent'']"
    by (simp add: py_split_def is_space_def)
  have locales: "py_split ''fr-CA fr en'' = [''fr-CA'', ''fr'', ''en'']"
    by (simp add: py_split_def is_space_def)
  have scenario: "prompt request = Some ''login consent''
            \<and> ui_locales request = Some ''fr-CA fr en'' \<and> claims request = PStr [] \<longrightarrow>
            fst (openid_authorization_validator loads rv request) =
              Inr (Some \<lparr>info_display = display request,
                          info_prompt = [''login'', ''consent''],
                          info_ui_locales = [''fr-CA'', ''fr'', ''en''],
                          info_id_token_hint = id_token_hint request,
                          info_login_hint = login_hint request\<rparr>)
            \<and> claims (fst (snd (openid_authorization_validator loads rv request))) = PDict []"
  proof (intro impI, elim conjE)
    assume p: "prompt request = Some ''login consent''"
      and u: "ui_locales request = Some ''fr-CA fr en''"
      and e: "claims request = PStr []"
    from e assms(3) have "c = PDict []" by (simp add: parse_claims_def)
    with info req p u login locales
    show "fst (openid_authorization_validator loads rv request) =
              Inr (Some \<lparr>info_display = display request,
                          info_prompt = [''login'', ''consent''],
                          info_ui_locales = [''fr-CA'', ''fr'', ''en''],
                          info_id_token_hint = id_token_hint request,
                          info_login_hint = login_hint request\<rparr>)
            \<and> claims (fst (snd (openid_authorization_validator loads rv request))) = PDict []"
      by simp
  qed
  from info req scenario show ?thesis
    by (simp only: py_split_tokens py_split_concat simp_thms)
qed

text \<open>The scenario of the specification.\<close>

theorem request_info_on_success_witness:
  "openid_authorization_validator sample_loads (validator_answers True True True)
     (sample_request [''openid''] (Some ''login consent'') (Some ''fr-CA fr en'') None (PStr [])) =
   (Inr (Some \<lparr>info_display = Some ''page'',
                info_prompt = [''login'', ''consent''],
                info_ui_locales = [''fr-CA'', ''fr'', ''en''],
                info_id_token_hint = None,
                info_login_hint = None\<rparr>),
    sample_request [''openid''] (Some ''login consent'') (Some ''fr-CA fr en'') None (PDict []),
    [UserMatch None [''openid''] (PDict [])
       (sample_request [''openid''] (Some ''login consent'') (Some ''fr-CA fr en'') None
          (PDict []))])"
  using request_info_on_success
    [of "sample_request [''openid''] (Some ''login consent'') (Some ''fr-CA fr en'') None
           (PStr [])"
        "validator_answers True True True" sample_loads "PDict []"]
  by (simp add: validator_defs sample_defs py_split_def is_space_def)

text \<open>
  C9 as stated promises a \<open>request_info\<close> whenever \<open>openid\<close> is a scope and the
  request validator answers true. With prompt \<open>none\<close> and no id_token_hint the
  validator raises \<open>InvalidRequestError\<close>, although every method of the request
  validator would answer true.
\<close>

theorem request_info_counterexample:
  "fst (openid_authorization_validator sample_loads (validator_answers True True True)
          (sample_request [''openid''] (Some ''none'') (Some ''fr-CA fr en'') None (PStr []))) =
     Inl (InvalidRequestError (Some ''Prompt is set to none yet id_token_hint is missing.''))"
  by (simp add: validator_defs sample_defs)

section \<open>Claims about the constructors\<close>

text \<open>The authorization code flow looks up only names that exist.\<close>

lemma OpenIDConnectAuthCode_init_succeeds:
  "OpenIDConnectAuthCode_init base dflt rv =
     Inr \<lparr>self_request_validator = (case rv of Some v \<Rightarrow> v | None \<Rightarrow> dflt),
          auth_code = Some \<lparr>engine_validator = rv, response_types = [],
            authorization_validators =
              [BoundMethod OpenIDConnectBase ''openid_authorization_validator''],
            token_modifiers = [BoundMethod OpenIDConnectBase ''add_id_token'']\<rparr>,
          implicit = None\<rparr>"
  by (simp add: OpenIDConnectAuthCode_init_def getattr_def new_engine_def
        register_authorization_validator_def register_token_modifier_def)

text \<open>
  C10. No class statement of the module binds \<open>create_id_token\<close>, while
  \<open>OpenIDConnectBase\<close> binds \<open>add_id_token\<close>. When the base class \<open>GrantTypeBase\<close>
  supplies no attribute \<open>create_id_token\<close>, the constructors of
  \<open>OpenIDConnectImplicit\<close> and \<open>OpenIDConnectHybrid\<close> raise \<open>AttributeError\<close> for
  every \<open>request_validator\<close> argument: the implicit flow at the lookup of
  \<open>create_id_token\<close>, the hybrid flow there or, when the base class does not supply it
  either, one statement earlier at \<open>openid_implicit_authorization_validator\<close>, which
  only \<open>OpenIDConnectImplicit\<close> defines.
\<close>

theorem implicit_and_hybrid_init_fail:
  assumes "''create_id_token'' \<notin> set base"
  shows "list_all (\<lambda>k. ''create_id_token'' \<notin> set (class_body base k))
           [OpenIDConnectBase, OpenIDConnectAuthCode, OpenIDConnectImplicit,
            OpenIDConnectHybrid]
       \<and> ''add_id_token'' \<in> set (class_body base OpenIDConnectBase)
       \<and> OpenIDConnectImplicit_init base dflt rv = Inl (AttributeError ''create_id_token'')
       \<and> OpenIDConnectHybrid_init base dflt rv =
           Inl (AttributeError
                  (if ''openid_implicit_authorization_validator'' \<in> set base
                   then ''create_id_token''
                   else ''openid_implicit_authorization_validator''))"
  using assms
  by (simp add: OpenIDConnectImplicit_init_def OpenIDConnectHybrid_init_def getattr_def)

theorem implicit_and_hybrid_init_fail_witness:
  "''create_id_token'' \<notin> set [''validate_grant_type'']
   \<and> OpenIDConnectImplicit_init [''validate_grant_type''] (validator_answers True True True)
        None = Inl (AttributeError ''create_id_token'')
   \<and> OpenIDConnectHybrid_init [''validate_grant_type''] (validator_answers True True True)
        (Some (validator_answers True True True))
       = Inl (AttributeError ''openid_implicit_authorization_validator'')"
  using implicit_and_hybrid_init_fail
    [of "[''validate_grant_type'']" "validator_answers True True True" None]
    implicit_and_hybrid_init_fail
    [of "[''validate_grant_type'']" "validator_answers True True True"
        "Some (validator_answers True True True)"]
  by simp

end
